theory Spec2Isabelle
  imports Main "HOL-Library.Finite_Map" "HOL-Library.Multiset"
begin

section \<open>PodLabelGuard: the pod label admission webhook (api/v1/pod_webhook.go)\<close>

text \<open>
  The development embeds \<^verbatim>\<open>PodValidator.Handle\<close> and \<^verbatim>\<open>matchesLabels\<close> of
  \<^verbatim>\<open>api/v1/pod_webhook.go\<close> together with the library functions they call
  (\<^verbatim>\<open>reflect.DeepEqual\<close> on two \<^verbatim>\<open>map[string]string\<close> values, the validated label
  selector of \<^verbatim>\<open>k8s.io/apimachinery/pkg/labels\<close>, and the response constructors of
  controller-runtime's \<^verbatim>\<open>admission\<close> package). The calls to \<^verbatim>\<open>fmt.Println\<close> and
  \<^verbatim>\<open>fmt.Printf\<close> only write to standard output and are left out.
\<close>

subsection \<open>Go maps of type \<^verbatim>\<open>map[string]string\<close>\<close>

text \<open>
  A Go map value is either \<^verbatim>\<open>nil\<close> or a finite table with unique keys and no
  observable order. \<open>None\<close> is the nil map, \<open>Some m\<close> an allocated one
  (possibly empty).
\<close>

type_synonym go_map = "(string, string) fmap option"

text \<open>\<^verbatim>\<open>m == nil\<close>\<close>

definition map_is_nil :: "go_map \<Rightarrow> bool" where
  "map_is_nil m = (case m of None \<Rightarrow> True | Some _ \<Rightarrow> False)"

text \<open>\<^verbatim>\<open>len(m)\<close>: zero for the nil map.\<close>

definition map_len :: "go_map \<Rightarrow> nat" where
  "map_len m = (case m of None \<Rightarrow> 0 | Some f \<Rightarrow> fcard (fmdom f))"

text \<open>\<^verbatim>\<open>v, ok := m[k]\<close>: reading the nil map finds nothing.\<close>

definition map_index :: "go_map \<Rightarrow> string \<Rightarrow> string option" where
  "map_index m k = (case m of None \<Rightarrow> None | Some f \<Rightarrow> fmlookup f k)"

text \<open>The keys a \<^verbatim>\<open>range\<close> loop over the map visits.\<close>

definition map_keys :: "go_map \<Rightarrow> string fset" where
  "map_keys m = (case m of None \<Rightarrow> {||} | Some f \<Rightarrow> fmdom f)"

text \<open>
  \<^verbatim>\<open>reflect.DeepEqual\<close> at kind \<^verbatim>\<open>Map\<close> with string keys and values: the two
  maps must agree on being nil, have the same length, and every key of the first must be
  present in the second with an equal value.
\<close>

definition DeepEqual :: "go_map \<Rightarrow> go_map \<Rightarrow> bool" where
  "DeepEqual a b =
     (if map_is_nil a \<noteq> map_is_nil b then False
      else if map_len a \<noteq> map_len b then False
      else fBall (map_keys a) (\<lambda>k.
             map_index a k \<noteq> None \<and> map_index b k \<noteq> None \<and> map_index a k = map_index b k))"

subsection \<open>Label sets and the validated selector (apimachinery \<^verbatim>\<open>labels\<close>)\<close>

text \<open>\<^verbatim>\<open>labels.Set.Has\<close>: \<^verbatim>\<open>_, exists := ls[label]\<close>\<close>

definition Has :: "go_map \<Rightarrow> string \<Rightarrow> bool" where
  "Has ls label = (map_index ls label \<noteq> None)"

text \<open>\<^verbatim>\<open>labels.Set.Get\<close>: \<^verbatim>\<open>ls[label]\<close>, the empty string for a missing key.\<close>

definition Get :: "go_map \<Rightarrow> string \<Rightarrow> string" where
  "Get ls label = (case map_index ls label of None \<Rightarrow> [] | Some v \<Rightarrow> v)"

text \<open>
  \<^verbatim>\<open>Set.AsSelectorPreValidated().Matches\<close>: the selector built from a set requires, for
  each of its pairs, that the labels have the key and carry the same value; the loop
  returns false at the first pair that fails and true when none does.
\<close>

definition Matches :: "go_map \<Rightarrow> go_map \<Rightarrow> bool" where
  "Matches s ls =
     (case s of None \<Rightarrow> True
      | Some f \<Rightarrow> fmpred (\<lambda>k v. \<not> (\<not> Has ls k \<or> v \<noteq> Get ls k)) f)"

text \<open>\<^verbatim>\<open>matchesLabels\<close> (pod_webhook.go, lines 112-115).\<close>

definition matchesLabels :: "go_map \<Rightarrow> go_map \<Rightarrow> bool" where
  "matchesLabels podslabels netPolLabels = Matches netPolLabels podslabels"

subsection \<open>Objects\<close>

text \<open>The fields of \<^verbatim>\<open>corev1.Pod\<close> that the handler reads (all of its ObjectMeta).\<close>

record Pod =
  Name :: string
  Namespace :: string
  Labels :: go_map

text \<open>\<^verbatim>\<open>metav1.LabelSelectorRequirement\<close> and \<^verbatim>\<open>metav1.LabelSelector\<close>.\<close>

record LabelSelectorRequirement =
  Key :: string
  Operator :: string
  Values :: "string list"

record LabelSelector =
  MatchLabels :: go_map
  MatchExpressions :: "LabelSelectorRequirement list"

text \<open>
  \<^verbatim>\<open>networkingv1.NetworkPolicy\<close> with its \<^verbatim>\<open>Spec.PodSelector\<close>; the ingress and
  egress rules of the spec are never read by the handler.
\<close>

record NetworkPolicySpec =
  PodSelector :: LabelSelector

record NetworkPolicy =
  PolicyName :: string
  PolicyNamespace :: string
  Spec :: NetworkPolicySpec

text \<open>
  A Go \<^verbatim>\<open>error\<close> as the handler uses it: \<^verbatim>\<open>errors.IsNotFound\<close> tells a
  not-found status from every other failure, and \<^verbatim>\<open>Error()\<close> gives the message.
\<close>

datatype error = NotFoundError string | OtherError string

fun IsNotFound :: "error \<Rightarrow> bool" where
  "IsNotFound (NotFoundError _) = True"
| "IsNotFound (OtherError _) = False"

fun Error :: "error \<Rightarrow> string" where
  "Error (NotFoundError msg) = msg"
| "Error (OtherError msg) = msg"

text \<open>
  \<^verbatim>\<open>admission.Request\<close>: the namespace and name of the object and its raw payload.
\<close>

record Request =
  ReqNamespace :: string
  ReqName :: string
  Object :: string

text \<open>
  \<^verbatim>\<open>client.Client\<close>: \<^verbatim>\<open>Get\<close> by object key (namespace, name) and \<^verbatim>\<open>List\<close> of
  the network policies in a namespace; each returns an error or the object(s).
\<close>

record Client =
  ClientGet :: "string \<Rightarrow> string \<Rightarrow> error + Pod"
  ClientList :: "string \<Rightarrow> error + NetworkPolicy list"

record PodValidator =
  Client :: Client
  decoder :: "Request \<Rightarrow> error + Pod"

subsection \<open>Admission responses\<close>

text \<open>
  \<^verbatim>\<open>admission.Response\<close>: the \<^verbatim>\<open>Allowed\<close> flag, the status code and message of
  \<^verbatim>\<open>Result\<close>, and the \<^verbatim>\<open>Warnings\<close>.
\<close>

record Response =
  Allowed :: bool
  Code :: int
  Message :: string
  Warnings :: "string list"

definition StatusOK :: int where "StatusOK = 200"
definition StatusBadRequest :: int where "StatusBadRequest = 400"
definition StatusForbidden :: int where "StatusForbidden = 403"
definition StatusInternalServerError :: int where "StatusInternalServerError = 500"

text \<open>\<^verbatim>\<open>admission.ValidationResponse\<close>, and \<^verbatim>\<open>Allowed\<close> and \<^verbatim>\<open>Denied\<close> built on it.\<close>

definition ValidationResponse :: "bool \<Rightarrow> string \<Rightarrow> Response" where
  "ValidationResponse allowed message =
     \<lparr>Allowed = allowed,
      Code = (if allowed then StatusOK else StatusForbidden),
      Message = message,
      Warnings = []\<rparr>"

definition admission_Allowed :: "string \<Rightarrow> Response" where
  "admission_Allowed message = ValidationResponse True message"

definition admission_Denied :: "string \<Rightarrow> Response" where
  "admission_Denied message = ValidationResponse False message"

text \<open>\<^verbatim>\<open>admission.Errored\<close>: not allowed, with the given code and the error's text.\<close>

definition admission_Errored :: "int \<Rightarrow> error \<Rightarrow> Response" where
  "admission_Errored code err =
     \<lparr>Allowed = False, Code = code, Message = Error err, Warnings = []\<rparr>"

text \<open>\<^verbatim>\<open>Response.WithWarnings\<close> appends to the warnings.\<close>

definition WithWarnings :: "Response \<Rightarrow> string list \<Rightarrow> Response" where
  "WithWarnings r ws = r\<lparr>Warnings := Warnings r @ ws\<rparr>"

subsection \<open>The handler\<close>

text \<open>
  The loop of lines 100-106 over \<^verbatim>\<open>networkPolicyList.Items\<close>: it leaves at the first
  policy whose \<^verbatim>\<open>Spec.PodSelector.MatchLabels\<close> match the original pod's labels.
  The response returned from inside the loop is the same at every item, so the loop is
  the test whether it returns.
\<close>

primrec referencedBy :: "go_map \<Rightarrow> NetworkPolicy list \<Rightarrow> bool" where
  "referencedBy originalLabels [] = False"
| "referencedBy originalLabels (networkPolicy # items) =
     (if matchesLabels originalLabels (MatchLabels (PodSelector (Spec networkPolicy))) then True
      else referencedBy originalLabels items)"

text \<open>\<^verbatim>\<open>PodValidator.Handle\<close> (lines 47-110).\<close>

definition Handle :: "PodValidator \<Rightarrow> Request \<Rightarrow> Response" where
  "Handle v req =
     (case decoder v req of
        Inl err \<Rightarrow> admission_Errored StatusBadRequest err
      | Inr pod \<Rightarrow>
        (case ClientGet (Client v) (ReqNamespace req) (ReqName req) of
           Inl err \<Rightarrow>
             (if \<not> IsNotFound err then admission_Errored StatusInternalServerError err
              else admission_Allowed ''New pod creation'')
         | Inr originalPod \<Rightarrow>
             (if DeepEqual (Labels originalPod) (Labels pod)
              then admission_Allowed ''No label changes detected''
              else
                (case ClientList (Client v) (Namespace pod) of
                   Inl err \<Rightarrow> admission_Errored StatusInternalServerError err
                 | Inr items \<Rightarrow>
                     (if referencedBy (Labels originalPod) items
                      then WithWarnings (admission_Allowed [])
                             [''Pod labels are referenced in a NetworkPolicy'']
                      else admission_Allowed
                             ''Labels are not referenced in any NetworkPolicy'')))))"


subsection \<open>Label sets as sets of pairs\<close>

text \<open>The (key, value) pairs a map holds; the nil map and the empty map hold none.\<close>

definition pairs :: "go_map \<Rightarrow> (string \<times> string) fset" where
  "pairs m = (case m of None \<Rightarrow> {||} | Some f \<Rightarrow> (\<lambda>k. (k, Get m k)) |`| fmdom f)"

text \<open>A map written as a list of pairs, as a Go map literal is.\<close>

definition map_literal :: "(string \<times> string) list \<Rightarrow> go_map" where
  "map_literal kvs = Some (fmap_of_list kvs)"

subsection \<open>Example inputs\<close>

definition labels_app_x :: go_map where
  "labels_app_x = map_literal [(''app'', ''x'')]"

definition labels_app_y :: go_map where
  "labels_app_y = map_literal [(''app'', ''y'')]"

definition labels_app_x_tier :: go_map where
  "labels_app_x_tier = map_literal [(''tier'', ''db''), (''app'', ''x'')]"

definition pod_with :: "go_map \<Rightarrow> Pod" where
  "pod_with ls = \<lparr>Name = ''web'', Namespace = ''default'', Labels = ls\<rparr>"

definition policy_with :: "go_map \<Rightarrow> LabelSelectorRequirement list \<Rightarrow> NetworkPolicy" where
  "policy_with ls es =
     \<lparr>PolicyName = ''isolate'', PolicyNamespace = ''default'',
      Spec = \<lparr>PodSelector = \<lparr>MatchLabels = ls, MatchExpressions = es\<rparr>\<rparr>\<rparr>"

definition tier_exists :: LabelSelectorRequirement where
  "tier_exists = \<lparr>Key = ''tier'', Operator = ''Exists'', Values = []\<rparr>"

definition update_request :: Request where
  "update_request = \<lparr>ReqNamespace = ''default'', ReqName = ''web'', Object = []\<rparr>"

text \<open>
  A validator over a fixed cluster state: the decoder yields \<open>dec\<close>, the pod
  \<^verbatim>\<open>default/web\<close> is looked up with result \<open>got\<close> (any other key is not found), and
  the policies of namespace \<^verbatim>\<open>default\<close> are listed with result \<open>listed\<close>.
\<close>

definition validator_with ::
  "error + Pod \<Rightarrow> error + Pod \<Rightarrow> error + NetworkPolicy list \<Rightarrow> PodValidator" where
  "validator_with dec got listed =
     \<lparr>Client =
        \<lparr>ClientGet = (\<lambda>ns n. if ns = ''default'' \<and> n = ''web'' then got
                               else Inl (NotFoundError ''not found'')),
         ClientList = (\<lambda>ns. if ns = ''default'' then listed else Inr [])\<rparr>,
      decoder = (\<lambda>r. dec)\<rparr>"

lemmas go_map_defs =
  map_is_nil_def map_len_def map_index_def map_keys_def Has_def Get_def map_literal_def

lemmas example_defs =
  labels_app_x_def labels_app_y_def labels_app_x_tier_def pod_with_def policy_with_def
  tier_exists_def update_request_def validator_with_def

lemmas response_defs =
  ValidationResponse_def admission_Allowed_def admission_Denied_def admission_Errored_def
  WithWarnings_def StatusOK_def StatusBadRequest_def StatusForbidden_def
  StatusInternalServerError_def

section \<open>Properties of the maps and the selector\<close>

lemma pairs_iff: "(k, v) |\<in>| pairs m \<longleftrightarrow> map_index m k = Some v"
  by (cases m) (auto simp: pairs_def map_index_def Get_def fmlookup_dom_iff)

lemma pairs_eq_iff: "pairs a = pairs b \<longleftrightarrow> (\<forall>k. map_index a k = map_index b k)"
proof
  assume e: "pairs a = pairs b"
  show "\<forall>k. map_index a k = map_index b k"
  proof
    fix k
    show "map_index a k = map_index b k"
    proof (cases "map_index a k")
      case None
      have "map_index b k = None"
      proof (rule ccontr)
        assume "map_index b k \<noteq> None"
        then obtain v where "map_index b k = Some v" by auto
        then have "(k, v) |\<in>| pairs a" using e by (simp add: pairs_iff)
        with None show False by (simp add: pairs_iff)
      qed
      with None show ?thesis by simp
    next
      case (Some v)
      then have "(k, v) |\<in>| pairs b" using e by (simp add: pairs_iff[symmetric])
      with Some show ?thesis by (simp add: pairs_iff)
    qed
  qed
next
  assume "\<forall>k. map_index a k = map_index b k"
  then have "\<And>k v. (k, v) |\<in>| pairs a \<longleftrightarrow> (k, v) |\<in>| pairs b"
    by (simp add: pairs_iff)
  then show "pairs a = pairs b" by auto
qed

text \<open>
  Two finite maps of the same size coincide once every key of the first is bound to the
  same value in the second: the argument behind the length test of \<open>DeepEqual\<close>.
\<close>

lemma fmap_eq_of_sub:
  assumes c: "fcard (fmdom f) = fcard (fmdom g)"
    and l: "\<And>k. k |\<in>| fmdom f \<Longrightarrow> fmlookup f k = fmlookup g k"
  shows "f = g"
proof -
  have sub: "fmdom f |\<subseteq>| fmdom g"
  proof
    fix k assume k: "k |\<in>| fmdom f"
    then obtain x where "fmlookup f k = Some x" by (auto simp: fmlookup_dom_iff)
    with l[OF k] have "fmlookup g k = Some x" by simp
    then show "k |\<in>| fmdom g" by (rule fmdomI)
  qed
  have deq: "fmdom f = fmdom g"
    using sub c by (metis fcard_seteq order_refl)
  show ?thesis
  proof (rule fmap_ext)
    fix k show "fmlookup f k = fmlookup g k"
    proof (cases "k |\<in>| fmdom f")
      case True then show ?thesis by (rule l)
    next
      case False
      then have "fmlookup f k = None" by (simp add: fmlookup_dom_iff)
      moreover from False deq have "fmlookup g k = None" by (simp add: fmlookup_dom_iff)
      ultimately show ?thesis by simp
    qed
  qed
qed

lemma DeepEqual_iff_eq: "DeepEqual a b \<longleftrightarrow> a = b"
proof (cases a; cases b)
  fix f g assume ab: "a = Some f" "b = Some g"
  show ?thesis
  proof
    assume d: "DeepEqual a b"
    have c: "fcard (fmdom f) = fcard (fmdom g)"
      using d ab by (simp add: DeepEqual_def map_is_nil_def map_len_def split: if_splits)
    have l: "\<And>k. k |\<in>| fmdom f \<Longrightarrow> fmlookup f k = fmlookup g k"
      using d ab
      by (simp add: DeepEqual_def map_is_nil_def map_len_def map_keys_def map_index_def
          split: if_splits)
    from fmap_eq_of_sub[OF c l] ab show "a = b" by simp
  next
    assume "a = b"
    with ab show "DeepEqual a b"
      by (auto simp: DeepEqual_def map_is_nil_def map_len_def map_keys_def map_index_def
          fmlookup_dom_iff)
  qed
qed (simp_all add: DeepEqual_def map_is_nil_def map_len_def map_keys_def)

lemma go_map_eq_iff: "a = b \<longleftrightarrow> map_is_nil a = map_is_nil b \<and> pairs a = pairs b"
proof (cases a; cases b)
  fix f g assume ab: "a = Some f" "b = Some g"
  have "f = g \<longleftrightarrow> (\<forall>k. fmlookup f k = fmlookup g k)"
    by (auto intro: fmap_ext)
  with ab show ?thesis
    by (simp add: pairs_eq_iff map_index_def map_is_nil_def)
qed (simp_all add: map_is_nil_def)

lemma map_literal_perm:
  assumes d: "distinct (map fst xs)" and p: "mset xs = mset ys"
  shows "map_literal xs = map_literal ys"
proof -
  from p have "mset (map fst xs) = mset (map fst ys)" by (metis mset_map)
  with d have d': "distinct (map fst ys)" by (metis mset_eq_imp_distinct_iff)
  from p have "set xs = set ys" by (rule mset_eq_setD)
  with d d' have "map_of xs = map_of ys" by (simp add: map_of_inject_set)
  then have "fmap_of_list xs = fmap_of_list ys"
    by (intro fmap_ext) (simp add: fmlookup_of_list)
  then show ?thesis by (simp add: map_literal_def)
qed

lemma matchesLabels_iff:
  "matchesLabels L S \<longleftrightarrow> (\<forall>k v. map_index S k = Some v \<longrightarrow> map_index L k = Some v)"
proof (cases S)
  case None
  then show ?thesis by (simp add: matchesLabels_def Matches_def map_index_def)
next
  case (Some f)
  have "\<And>k v. (Has L k \<and> v = Get L k) \<longleftrightarrow> map_index L k = Some v"
    by (auto simp: Has_def Get_def split: option.splits)
  with Some show ?thesis
    by (simp add: matchesLabels_def Matches_def fmpred_iff map_index_def)
qed

lemma map_len_0_index: "map_len S = 0 \<Longrightarrow> map_index S k = None"
proof (cases S)
  case None
  then show ?thesis by (simp add: map_index_def)
next
  case (Some f)
  assume "map_len S = 0"
  with Some have "fmdom f = {||}" by (simp add: map_len_def)
  then have "fmlookup f k = None" by (metis fmdom_notD fempty_iff)
  with Some show ?thesis by (simp add: map_index_def)
qed

lemma referencedBy_iff:
  "referencedBy L items \<longleftrightarrow>
     (\<exists>np \<in> set items. matchesLabels L (MatchLabels (PodSelector (Spec np))))"
  by (induction items) auto


section \<open>The selector matcher\<close>

text \<open>
  Claim C4. For every label set \<open>L\<close> and selector \<open>S\<close>, \<open>matchesLabels L S\<close> is
  true iff every pair \<open>(k, v)\<close> required by \<open>S\<close> is present in \<open>L\<close> with exactly the
  same value (string equality, so case-sensitive); keys of \<open>L\<close> that \<open>S\<close> does not name
  are irrelevant: binding such a key does not change the result.
\<close>

theorem C4_matches_iff_pairs_present:
  "(matchesLabels L S \<longleftrightarrow> pairs S |\<subseteq>| pairs L)
   \<and> (matchesLabels L S \<longleftrightarrow> (\<forall>k v. map_index S k = Some v \<longrightarrow> map_index L k = Some v))
   \<and> (map_index S k' = None \<longrightarrow>
        matchesLabels (Some (fmupd k' v' f)) S = matchesLabels (Some f) S)"
proof (intro conjI impI)
  show i: "matchesLabels L S \<longleftrightarrow> (\<forall>k v. map_index S k = Some v \<longrightarrow> map_index L k = Some v)"
    by (rule matchesLabels_iff)
  have "pairs S |\<subseteq>| pairs L \<longleftrightarrow> (\<forall>k v. (k, v) |\<in>| pairs S \<longrightarrow> (k, v) |\<in>| pairs L)"
    by auto
  with i show "matchesLabels L S \<longleftrightarrow> pairs S |\<subseteq>| pairs L"
    by (simp add: pairs_iff)
next
  assume n: "map_index S k' = None"
  have "\<And>k v. map_index S k = Some v \<Longrightarrow> k \<noteq> k'"
    using n by auto
  then show "matchesLabels (Some (fmupd k' v' f)) S = matchesLabels (Some f) S"
    unfolding matchesLabels_iff by (auto simp: map_index_def)
qed

theorem C4_matches_witness:
  "matchesLabels labels_app_x_tier labels_app_x
   \<and> pairs labels_app_x |\<subseteq>| pairs labels_app_x_tier
   \<and> \<not> matchesLabels labels_app_x labels_app_y
   \<and> \<not> pairs labels_app_y |\<subseteq>| pairs labels_app_x
   \<and> \<not> matchesLabels (map_literal [(''app'', ''X'')]) labels_app_x
   \<and> map_index labels_app_x ''tier'' = None
   \<and> matchesLabels (Some (fmupd ''tier'' ''db'' (fmap_of_list [(''app'', ''x'')]))) labels_app_x"
proof -
  have m: "matchesLabels labels_app_x_tier labels_app_x"
    by (simp add: matchesLabels_def Matches_def fmpred_iff go_map_defs example_defs)
  have n: "\<not> matchesLabels labels_app_x labels_app_y"
    by (simp add: matchesLabels_def Matches_def fmpred_iff go_map_defs example_defs)
  have c: "\<not> matchesLabels (map_literal [(''app'', ''X'')]) labels_app_x"
    by (simp add: matchesLabels_def Matches_def fmpred_iff go_map_defs example_defs)
  have t: "map_index labels_app_x ''tier'' = None"
    by (simp add: go_map_defs example_defs)
  have b: "matchesLabels (Some (fmap_of_list [(''app'', ''x'')])) labels_app_x"
    by (simp add: matchesLabels_def Matches_def fmpred_iff go_map_defs example_defs)
  note T1 = C4_matches_iff_pairs_present [of labels_app_x_tier labels_app_x]
  note T2 = C4_matches_iff_pairs_present [of labels_app_x labels_app_y]
  note T3 = C4_matches_iff_pairs_present
    [of _ labels_app_x "''tier''" "''db''" "fmap_of_list [(''app'', ''x'')]"]
  from m T1 have 1: "pairs labels_app_x |\<subseteq>| pairs labels_app_x_tier" by blast
  from n T2 have 2: "\<not> pairs labels_app_y |\<subseteq>| pairs labels_app_x" by blast
  from t b T3
  have 3: "matchesLabels (Some (fmupd ''tier'' ''db'' (fmap_of_list [(''app'', ''x'')]))) labels_app_x"
    by blast
  from m n c t 1 2 3 show ?thesis by blast
qed

text \<open>
  Claim C8. A selector with zero required pairs (the nil map or the empty map) matches
  every label set, the nil and the empty label set included.
\<close>

theorem C8_empty_selector_matches_all:
  "map_len S = 0 \<Longrightarrow> matchesLabels L S"
  by (simp add: matchesLabels_iff map_len_0_index)

theorem C8_empty_selector_witness:
  "map_len (Some fmempty) = 0 \<and> map_len None = 0
   \<and> matchesLabels None (Some fmempty) \<and> matchesLabels (Some fmempty) (Some fmempty)
   \<and> matchesLabels labels_app_x (Some fmempty)
   \<and> matchesLabels None None \<and> matchesLabels (Some fmempty) None
   \<and> matchesLabels labels_app_x None"
proof -
  have e: "map_len (Some fmempty) = 0" by (simp add: map_len_def)
  have n: "map_len None = 0" by (simp add: map_len_def)
  show ?thesis
    using e n
      C8_empty_selector_matches_all [OF e, of None]
      C8_empty_selector_matches_all [OF e, of "Some fmempty"]
      C8_empty_selector_matches_all [OF e, of labels_app_x]
      C8_empty_selector_matches_all [OF n, of None]
      C8_empty_selector_matches_all [OF n, of "Some fmempty"]
      C8_empty_selector_matches_all [OF n, of labels_app_x]
    by blast
qed


section \<open>The change detector\<close>

text \<open>
  Claim C3, as amended. The change detector (\<open>DeepEqual\<close> on the previous and the
  proposed label map; "changed" is its negation) reports no change exactly when the two
  maps agree on being nil and are equal as sets of (key, value) pairs. It reports no
  change for every map against itself; it reports a change for every two maps that differ
  in a key or a value; and the order in which the pairs of a map were written does not
  matter.
\<close>

theorem C3_change_detector:
  "(DeepEqual L1 L2 \<longleftrightarrow> map_is_nil L1 = map_is_nil L2 \<and> pairs L1 = pairs L2)
   \<and> DeepEqual L L
   \<and> (pairs L1 \<noteq> pairs L2 \<longrightarrow> \<not> DeepEqual L1 L2)
   \<and> (distinct (map fst kvs) \<and> mset kvs = mset kvs' \<longrightarrow>
        DeepEqual (map_literal kvs) (map_literal kvs'))"
proof (intro conjI impI)
  show "DeepEqual L1 L2 \<longleftrightarrow> map_is_nil L1 = map_is_nil L2 \<and> pairs L1 = pairs L2"
    unfolding DeepEqual_iff_eq by (rule go_map_eq_iff)
  show "DeepEqual L L"
    by (simp add: DeepEqual_iff_eq)
  show "\<not> DeepEqual L1 L2" if "pairs L1 \<noteq> pairs L2"
    using that by (auto simp: DeepEqual_iff_eq)
  show "DeepEqual (map_literal kvs) (map_literal kvs')"
    if "distinct (map fst kvs) \<and> mset kvs = mset kvs'"
    using that by (simp add: DeepEqual_iff_eq map_literal_perm)
qed

theorem C3_change_detector_witness:
  "DeepEqual labels_app_x_tier labels_app_x_tier
   \<and> pairs labels_app_x \<noteq> pairs labels_app_y
   \<and> \<not> DeepEqual labels_app_x labels_app_y
   \<and> distinct (map fst [(''tier'', ''db''), (''app'', ''x'')])
   \<and> mset [(''tier'', ''db''), (''app'', ''x'')] = mset [(''app'', ''x''), (''tier'', ''db'')]
   \<and> DeepEqual (map_literal [(''tier'', ''db''), (''app'', ''x'')])
        (map_literal [(''app'', ''x''), (''tier'', ''db'')])
   \<and> map_is_nil None \<noteq> map_is_nil (Some fmempty)
   \<and> \<not> DeepEqual None (Some fmempty)"
proof -
  have p: "pairs labels_app_x \<noteq> pairs labels_app_y"
    by (simp add: pairs_def go_map_defs example_defs)
  have d: "distinct (map fst [(''tier'', ''db''), (''app'', ''x'')])"
    by simp
  have m: "mset [(''tier'', ''db''), (''app'', ''x'')] = mset [(''app'', ''x''), (''tier'', ''db'')]"
    by simp
  have n: "map_is_nil None \<noteq> map_is_nil (Some fmempty)"
    by (simp add: map_is_nil_def)
  show ?thesis
    using p d m n
      C3_change_detector [of labels_app_x_tier labels_app_x_tier]
      C3_change_detector [of labels_app_x labels_app_y]
      C3_change_detector [of None "Some fmempty" _
        "[(''tier'', ''db''), (''app'', ''x'')]" "[(''app'', ''x''), (''tier'', ''db'')]"]
    by blast
qed

text \<open>
  The claim as the specification words it ("no change exactly when the two label sets are
  equal as sets of pairs") fails for the nil map against the empty map: both hold no
  pair, and the detector reports a change.
\<close>

theorem C3_nil_empty_counterexample:
  "\<not> (DeepEqual None (Some fmempty) \<longleftrightarrow> pairs None = pairs (Some fmempty))"
  by (simp add: DeepEqual_def pairs_def map_is_nil_def)

section \<open>The policy scan\<close>

text \<open>
  Claim C5. The scan over the policies returns true iff at least one policy of the
  collection has a selector matching the labels; on the empty collection it returns
  false; and its result is the same for every reordering of the collection.
\<close>

theorem C5_referencedBy_exists:
  "(referencedBy L items \<longleftrightarrow>
      (\<exists>np \<in> set items. matchesLabels L (MatchLabels (PodSelector (Spec np)))))
   \<and> referencedBy L [] = False
   \<and> (mset items = mset items' \<longrightarrow> referencedBy L items = referencedBy L items')"
proof (intro conjI impI)
  show "referencedBy L items \<longleftrightarrow>
      (\<exists>np \<in> set items. matchesLabels L (MatchLabels (PodSelector (Spec np))))"
    by (rule referencedBy_iff)
  show "referencedBy L [] = False"
    by simp
  assume "mset items = mset items'"
  then have "set items = set items'" by (rule mset_eq_setD)
  then show "referencedBy L items = referencedBy L items'"
    by (simp add: referencedBy_iff)
qed

theorem C5_referencedBy_witness:
  "mset [policy_with labels_app_y [], policy_with labels_app_x []]
     = mset [policy_with labels_app_x [], policy_with labels_app_y []]
   \<and> policy_with labels_app_x [] \<in> set [policy_with labels_app_y [], policy_with labels_app_x []]
   \<and> matchesLabels labels_app_x_tier (MatchLabels (PodSelector (Spec (policy_with labels_app_x []))))
   \<and> referencedBy labels_app_x_tier [policy_with labels_app_y [], policy_with labels_app_x []]
   \<and> referencedBy labels_app_x_tier [policy_with labels_app_x [], policy_with labels_app_y []]
   \<and> \<not> referencedBy labels_app_x_tier []"
proof -
  have p: "mset [policy_with labels_app_y [], policy_with labels_app_x []]
     = mset [policy_with labels_app_x [], policy_with labels_app_y []]"
    by simp
  have i: "policy_with labels_app_x [] \<in> set [policy_with labels_app_y [], policy_with labels_app_x []]"
    by simp
  have m: "matchesLabels labels_app_x_tier (MatchLabels (PodSelector (Spec (policy_with labels_app_x []))))"
    by (simp add: matchesLabels_def Matches_def fmpred_iff go_map_defs example_defs)
  show ?thesis
    using p i m
      C5_referencedBy_exists [of labels_app_x_tier
        "[policy_with labels_app_y [], policy_with labels_app_x []]"
        "[policy_with labels_app_x [], policy_with labels_app_y []]"]
    by blast
qed


section \<open>The handler\<close>

lemma Handle_decode_error:
  "decoder v req = Inl err \<Longrightarrow> Handle v req = admission_Errored StatusBadRequest err"
  by (simp add: Handle_def)

lemma Handle_get_error:
  assumes "decoder v req = Inr pod"
    and "ClientGet (Client v) (ReqNamespace req) (ReqName req) = Inl err"
  shows "Handle v req =
     (if IsNotFound err then admission_Allowed ''New pod creation''
      else admission_Errored StatusInternalServerError err)"
  using assms by (simp add: Handle_def)

lemma Handle_unchanged:
  assumes "decoder v req = Inr pod"
    and "ClientGet (Client v) (ReqNamespace req) (ReqName req) = Inr originalPod"
    and "DeepEqual (Labels originalPod) (Labels pod)"
  shows "Handle v req = admission_Allowed ''No label changes detected''"
  using assms by (simp add: Handle_def)

lemma Handle_changed:
  assumes "decoder v req = Inr pod"
    and "ClientGet (Client v) (ReqNamespace req) (ReqName req) = Inr originalPod"
    and "\<not> DeepEqual (Labels originalPod) (Labels pod)"
  shows "Handle v req =
     (case ClientList (Client v) (Namespace pod) of
        Inl err \<Rightarrow> admission_Errored StatusInternalServerError err
      | Inr items \<Rightarrow>
          (if referencedBy (Labels originalPod) items
           then WithWarnings (admission_Allowed [])
                  [''Pod labels are referenced in a NetworkPolicy'']
           else admission_Allowed ''Labels are not referenced in any NetworkPolicy''))"
  using assms by (simp add: Handle_def)

lemma Errored_not_Denied:
  "code \<noteq> StatusForbidden \<Longrightarrow> admission_Errored code err \<noteq> admission_Denied reason"
  by (simp add: admission_Errored_def admission_Denied_def ValidationResponse_def)

lemma Allowed_not_Denied: "admission_Allowed m \<noteq> admission_Denied reason"
  by (simp add: admission_Allowed_def admission_Denied_def ValidationResponse_def)

lemma Warned_not_Denied: "WithWarnings (admission_Allowed m) ws \<noteq> admission_Denied reason"
  by (simp add: WithWarnings_def admission_Allowed_def admission_Denied_def
      ValidationResponse_def)

lemma Handle_not_Denied: "Handle v req \<noteq> admission_Denied reason"
proof -
  have b: "StatusBadRequest \<noteq> StatusForbidden"
    by (simp add: StatusBadRequest_def StatusForbidden_def)
  have i: "StatusInternalServerError \<noteq> StatusForbidden"
    by (simp add: StatusInternalServerError_def StatusForbidden_def)
  show ?thesis
    unfolding Handle_def
    by (simp add: Errored_not_Denied[OF b] Errored_not_Denied[OF i] Allowed_not_Denied
        Warned_not_Denied split: sum.split)
qed

text \<open>
  Claim C1. The handler never answers with a denial. Whenever the collaborators succeed
  (the decoder yields a pod, the lookup of the previous pod yields a pod or reports
  not-found, and the policy list is delivered), the response has \<open>Allowed = True\<close>, with
  no warning or with the single policy warning; in particular, when the previous labels
  are referenced by a policy, the response is still allowed and only carries the warning.
\<close>

theorem C1_never_denied:
  assumes dec: "decoder v req = Inr pod"
    and get: "\<forall>err. ClientGet (Client v) (ReqNamespace req) (ReqName req) = Inl err
                \<longrightarrow> IsNotFound err"
    and lst: "ClientList (Client v) (Namespace pod) = Inr items"
  shows "Allowed (Handle v req) = True
     \<and> Code (Handle v req) = StatusOK
     \<and> (Warnings (Handle v req) = []
        \<or> Warnings (Handle v req) = [''Pod labels are referenced in a NetworkPolicy''])
     \<and> (\<forall>reason. Handle v req \<noteq> admission_Denied reason)
     \<and> (\<forall>originalPod.
          ClientGet (Client v) (ReqNamespace req) (ReqName req) = Inr originalPod
          \<and> \<not> DeepEqual (Labels originalPod) (Labels pod)
          \<and> referencedBy (Labels originalPod) items
          \<longrightarrow> Handle v req = WithWarnings (admission_Allowed [])
                               [''Pod labels are referenced in a NetworkPolicy'']
              \<and> Allowed (Handle v req) = True)"
proof -
  have nd: "\<forall>reason. Handle v req \<noteq> admission_Denied reason"
    by (simp add: Handle_not_Denied)
  show ?thesis
  proof (cases "ClientGet (Client v) (ReqNamespace req) (ReqName req)")
    case (Inl err)
    with get have "IsNotFound err" by simp
    with Handle_get_error[OF dec Inl]
    have "Handle v req = admission_Allowed ''New pod creation''" by simp
    with nd Inl show ?thesis
      by (simp add: admission_Allowed_def ValidationResponse_def)
  next
    case (Inr originalPod)
    show ?thesis
    proof (cases "DeepEqual (Labels originalPod) (Labels pod)")
      case True
      from Handle_unchanged[OF dec Inr True] nd Inr True show ?thesis
        by (simp add: admission_Allowed_def ValidationResponse_def)
    next
      case False
      from Handle_changed[OF dec Inr False] lst
      have "Handle v req =
        (if referencedBy (Labels originalPod) items
         then WithWarnings (admission_Allowed [])
                [''Pod labels are referenced in a NetworkPolicy'']
         else admission_Allowed ''Labels are not referenced in any NetworkPolicy'')"
        by simp
      with nd Inr show ?thesis
        by (simp add: admission_Allowed_def ValidationResponse_def WithWarnings_def)
    qed
  qed
qed

theorem C1_never_denied_witness:
  "decoder (validator_with (Inr (pod_with labels_app_y)) (Inr (pod_with labels_app_x))
       (Inr [policy_with labels_app_x []])) update_request = Inr (pod_with labels_app_y)
   \<and> ClientGet (Client (validator_with (Inr (pod_with labels_app_y))
         (Inr (pod_with labels_app_x)) (Inr [policy_with labels_app_x []])))
       (ReqNamespace update_request) (ReqName update_request) = Inr (pod_with labels_app_x)
   \<and> \<not> DeepEqual (Labels (pod_with labels_app_x)) (Labels (pod_with labels_app_y))
   \<and> referencedBy (Labels (pod_with labels_app_x)) [policy_with labels_app_x []]
   \<and> Allowed (Handle (validator_with (Inr (pod_with labels_app_y))
         (Inr (pod_with labels_app_x)) (Inr [policy_with labels_app_x []])) update_request)
   \<and> Warnings (Handle (validator_with (Inr (pod_with labels_app_y))
         (Inr (pod_with labels_app_x)) (Inr [policy_with labels_app_x []])) update_request)
       = [''Pod labels are referenced in a NetworkPolicy'']"
proof -
  let ?v = "validator_with (Inr (pod_with labels_app_y)) (Inr (pod_with labels_app_x))
       (Inr [policy_with labels_app_x []])"
  have dec: "decoder ?v update_request = Inr (pod_with labels_app_y)"
    by (simp add: validator_with_def)
  have g: "ClientGet (Client ?v) (ReqNamespace update_request) (ReqName update_request)
      = Inr (pod_with labels_app_x)"
    by (simp add: validator_with_def update_request_def)
  then have get: "\<forall>err. ClientGet (Client ?v) (ReqNamespace update_request)
      (ReqName update_request) = Inl err \<longrightarrow> IsNotFound err"
    by simp
  have lst: "ClientList (Client ?v) (Namespace (pod_with labels_app_y))
      = Inr [policy_with labels_app_x []]"
    by (simp add: validator_with_def pod_with_def)
  have ch: "\<not> DeepEqual (Labels (pod_with labels_app_x)) (Labels (pod_with labels_app_y))"
    by (simp add: DeepEqual_def go_map_defs example_defs)
  have rf: "referencedBy (Labels (pod_with labels_app_x)) [policy_with labels_app_x []]"
    by (simp add: matchesLabels_def Matches_def fmpred_iff go_map_defs example_defs)
  from C1_never_denied[OF dec get lst] g ch rf
  have "Handle ?v update_request = WithWarnings (admission_Allowed [])
          [''Pod labels are referenced in a NetworkPolicy'']
        \<and> Allowed (Handle ?v update_request) = True"
    by blast
  then have "Allowed (Handle ?v update_request)
     \<and> Warnings (Handle ?v update_request) = [''Pod labels are referenced in a NetworkPolicy'']"
    by (simp add: WithWarnings_def admission_Allowed_def ValidationResponse_def)
  with dec g ch rf show ?thesis by blast
qed


text \<open>
  Claim C2. Whenever the policy check runs (the previous pod exists, its labels differ
  from the proposed ones, and the policies are listed), it is evaluated against the
  previous pod's labels: the response carries a warning iff some policy's selector
  matches the previous labels, and the response is the same for every other proposed pod
  of the same namespace whose labels also differ from the previous ones, whatever the
  policies say about the proposed labels.
\<close>

theorem C2_scan_uses_previous_labels:
  assumes dec: "decoder v req = Inr pod"
    and get: "ClientGet (Client v) (ReqNamespace req) (ReqName req) = Inr originalPod"
    and chg: "\<not> DeepEqual (Labels originalPod) (Labels pod)"
    and lst: "ClientList (Client v) (Namespace pod) = Inr items"
  shows "(Warnings (Handle v req) \<noteq> [] \<longleftrightarrow>
           (\<exists>np \<in> set items.
              matchesLabels (Labels originalPod) (MatchLabels (PodSelector (Spec np)))))
     \<and> (\<forall>pod'. Namespace pod' = Namespace pod
            \<and> \<not> DeepEqual (Labels originalPod) (Labels pod')
          \<longrightarrow> Handle (v\<lparr>decoder := \<lambda>r. Inr pod'\<rparr>) req = Handle v req)"
proof (intro conjI allI impI)
  from Handle_changed[OF dec get chg] lst
  have h: "Handle v req =
        (if referencedBy (Labels originalPod) items
         then WithWarnings (admission_Allowed [])
                [''Pod labels are referenced in a NetworkPolicy'']
         else admission_Allowed ''Labels are not referenced in any NetworkPolicy'')"
    by simp
  then have "Warnings (Handle v req) \<noteq> [] \<longleftrightarrow> referencedBy (Labels originalPod) items"
    by (simp add: WithWarnings_def admission_Allowed_def ValidationResponse_def)
  then show "Warnings (Handle v req) \<noteq> [] \<longleftrightarrow>
           (\<exists>np \<in> set items.
              matchesLabels (Labels originalPod) (MatchLabels (PodSelector (Spec np))))"
    by (simp add: referencedBy_iff)
  fix pod' :: Pod
  assume a: "Namespace pod' = Namespace pod \<and> \<not> DeepEqual (Labels originalPod) (Labels pod')"
  let ?v' = "v\<lparr>decoder := \<lambda>r. Inr pod'\<rparr>"
  have dec': "decoder ?v' req = Inr pod'" by simp
  have get': "ClientGet (Client ?v') (ReqNamespace req) (ReqName req) = Inr originalPod"
    using get by simp
  from a have chg': "\<not> DeepEqual (Labels originalPod) (Labels pod')" by simp
  from Handle_changed[OF dec' get' chg'] lst a h
  show "Handle ?v' req = Handle v req" by simp
qed

theorem C2_scan_uses_previous_labels_witness:
  "decoder (validator_with (Inr (pod_with labels_app_y)) (Inr (pod_with labels_app_x))
       (Inr [policy_with labels_app_y []])) update_request = Inr (pod_with labels_app_y)
   \<and> ClientGet (Client (validator_with (Inr (pod_with labels_app_y))
         (Inr (pod_with labels_app_x)) (Inr [policy_with labels_app_y []])))
       (ReqNamespace update_request) (ReqName update_request) = Inr (pod_with labels_app_x)
   \<and> \<not> DeepEqual (Labels (pod_with labels_app_x)) (Labels (pod_with labels_app_y))
   \<and> ClientList (Client (validator_with (Inr (pod_with labels_app_y))
         (Inr (pod_with labels_app_x)) (Inr [policy_with labels_app_y []])))
       (Namespace (pod_with labels_app_y)) = Inr [policy_with labels_app_y []]
   \<and> matchesLabels (Labels (pod_with labels_app_y))
       (MatchLabels (PodSelector (Spec (policy_with labels_app_y []))))
   \<and> \<not> matchesLabels (Labels (pod_with labels_app_x))
       (MatchLabels (PodSelector (Spec (policy_with labels_app_y []))))
   \<and> Warnings (Handle (validator_with (Inr (pod_with labels_app_y))
         (Inr (pod_with labels_app_x)) (Inr [policy_with labels_app_y []])) update_request)
       = []"
proof -
  let ?v = "validator_with (Inr (pod_with labels_app_y)) (Inr (pod_with labels_app_x))
       (Inr [policy_with labels_app_y []])"
  have dec: "decoder ?v update_request = Inr (pod_with labels_app_y)"
    by (simp add: validator_with_def)
  have get: "ClientGet (Client ?v) (ReqNamespace update_request) (ReqName update_request)
      = Inr (pod_with labels_app_x)"
    by (simp add: validator_with_def update_request_def)
  have chg: "\<not> DeepEqual (Labels (pod_with labels_app_x)) (Labels (pod_with labels_app_y))"
    by (simp add: DeepEqual_def go_map_defs example_defs)
  have lst: "ClientList (Client ?v) (Namespace (pod_with labels_app_y))
      = Inr [policy_with labels_app_y []]"
    by (simp add: validator_with_def pod_with_def)
  have my: "matchesLabels (Labels (pod_with labels_app_y))
       (MatchLabels (PodSelector (Spec (policy_with labels_app_y []))))"
    by (simp add: matchesLabels_def Matches_def fmpred_iff go_map_defs example_defs)
  have mx: "\<not> matchesLabels (Labels (pod_with labels_app_x))
       (MatchLabels (PodSelector (Spec (policy_with labels_app_y []))))"
    by (simp add: matchesLabels_def Matches_def fmpred_iff go_map_defs example_defs)
  from C2_scan_uses_previous_labels[OF dec get chg lst] mx
  have "Warnings (Handle ?v update_request) = []" by simp
  with dec get chg lst my mx show ?thesis by blast
qed

text \<open>
  Claim C6. The handler answers "New pod creation" only when the decoder succeeded and
  the lookup of the previous pod failed with a not-found error. Any other lookup error
  ends the decision with an error response (status 500, not allowed, carrying the error's
  text); it is never turned into an allowed response.
\<close>

theorem C6_new_pod_only_on_not_found:
  "(Handle v req = admission_Allowed ''New pod creation'' \<longleftrightarrow>
      (\<exists>pod err. decoder v req = Inr pod
         \<and> ClientGet (Client v) (ReqNamespace req) (ReqName req) = Inl err
         \<and> IsNotFound err))
   \<and> (decoder v req = Inr pod
        \<and> ClientGet (Client v) (ReqNamespace req) (ReqName req) = Inl err
        \<and> \<not> IsNotFound err
      \<longrightarrow> Handle v req = admission_Errored StatusInternalServerError err
          \<and> Allowed (Handle v req) = False)"
proof (rule conjI)
  show "Handle v req = admission_Allowed ''New pod creation'' \<longleftrightarrow>
      (\<exists>pod err. decoder v req = Inr pod
         \<and> ClientGet (Client v) (ReqNamespace req) (ReqName req) = Inl err
         \<and> IsNotFound err)" (is "?L \<longleftrightarrow> ?R")
  proof
    assume ?R
    then show ?L by (auto simp: Handle_def)
  next
    assume l: ?L
    show ?R
    proof (cases "decoder v req")
      case (Inl e)
      with l show ?thesis
        by (simp add: Handle_def admission_Errored_def admission_Allowed_def
            ValidationResponse_def)
    next
      case (Inr pod)
      note dec = this
      show ?thesis
      proof (cases "ClientGet (Client v) (ReqNamespace req) (ReqName req)")
        case (Inl e)
        with l dec show ?thesis
          by (cases "IsNotFound e")
            (simp_all add: Handle_def admission_Errored_def admission_Allowed_def
              ValidationResponse_def)
      next
        case (Inr originalPod)
        with l dec show ?thesis
          by (simp add: Handle_def admission_Errored_def admission_Allowed_def
              ValidationResponse_def WithWarnings_def split: if_splits sum.splits)
      qed
    qed
  qed
next
  show "decoder v req = Inr pod
        \<and> ClientGet (Client v) (ReqNamespace req) (ReqName req) = Inl err
        \<and> \<not> IsNotFound err
      \<longrightarrow> Handle v req = admission_Errored StatusInternalServerError err
          \<and> Allowed (Handle v req) = False"
    by (simp add: Handle_def admission_Errored_def)
qed

theorem C6_new_pod_only_on_not_found_witness:
  "decoder (validator_with (Inr (pod_with labels_app_x)) (Inl (OtherError ''timeout''))
       (Inr [])) update_request = Inr (pod_with labels_app_x)
   \<and> ClientGet (Client (validator_with (Inr (pod_with labels_app_x))
         (Inl (OtherError ''timeout'')) (Inr [])))
       (ReqNamespace update_request) (ReqName update_request) = Inl (OtherError ''timeout'')
   \<and> \<not> IsNotFound (OtherError ''timeout'')
   \<and> Handle (validator_with (Inr (pod_with labels_app_x)) (Inl (OtherError ''timeout''))
       (Inr [])) update_request
       = \<lparr>Allowed = False, Code = 500, Message = ''timeout'', Warnings = []\<rparr>
   \<and> IsNotFound (NotFoundError ''pods web not found'')
   \<and> Handle (validator_with (Inr (pod_with labels_app_x))
       (Inl (NotFoundError ''pods web not found'')) (Inr [])) update_request
       = \<lparr>Allowed = True, Code = 200, Message = ''New pod creation'', Warnings = []\<rparr>"
proof -
  let ?v = "validator_with (Inr (pod_with labels_app_x)) (Inl (OtherError ''timeout''))
       (Inr [])"
  let ?w = "validator_with (Inr (pod_with labels_app_x))
       (Inl (NotFoundError ''pods web not found'')) (Inr [])"
  have dec: "decoder ?v update_request = Inr (pod_with labels_app_x)"
    by (simp add: validator_with_def)
  have get: "ClientGet (Client ?v) (ReqNamespace update_request) (ReqName update_request)
      = Inl (OtherError ''timeout'')"
    by (simp add: validator_with_def update_request_def)
  have nf: "\<not> IsNotFound (OtherError ''timeout'')" by simp
  have dec': "decoder ?w update_request = Inr (pod_with labels_app_x)"
    by (simp add: validator_with_def)
  have get': "ClientGet (Client ?w) (ReqNamespace update_request) (ReqName update_request)
      = Inl (NotFoundError ''pods web not found'')"
    by (simp add: validator_with_def update_request_def)
  have nf': "IsNotFound (NotFoundError ''pods web not found'')" by simp
  from C6_new_pod_only_on_not_found
    [of ?v update_request "pod_with labels_app_x" "OtherError ''timeout''"] dec get nf
  have 1: "Handle ?v update_request
      = admission_Errored StatusInternalServerError (OtherError ''timeout'')"
    by blast
  from C6_new_pod_only_on_not_found [of ?w update_request] dec' get' nf'
  have 2: "Handle ?w update_request = admission_Allowed ''New pod creation''"
    by blast
  from 1 2 dec get nf nf' show ?thesis
    by (simp add: response_defs)
qed


text \<open>
  Claim C7. When the previous pod exists and its labels are unchanged, the response is
  the allowed response with reason "No label changes detected" (the source's literal,
  with a capital N), and it does not depend on the policies: replacing the client's
  policy listing by any other one, failing ones included, gives the same response.
\<close>

theorem C7_unchanged_ignores_policies:
  assumes dec: "decoder v req = Inr pod"
    and get: "ClientGet (Client v) (ReqNamespace req) (ReqName req) = Inr originalPod"
    and same: "DeepEqual (Labels originalPod) (Labels pod)"
  shows "Handle v req = admission_Allowed ''No label changes detected''
     \<and> Allowed (Handle v req) = True
     \<and> Warnings (Handle v req) = []
     \<and> (\<forall>list'. Handle (v\<lparr>Client := (Client v)\<lparr>ClientList := list'\<rparr>\<rparr>) req = Handle v req)"
proof -
  have h: "Handle v req = admission_Allowed ''No label changes detected''"
    by (rule Handle_unchanged[OF dec get same])
  have "Handle (v\<lparr>Client := (Client v)\<lparr>ClientList := list'\<rparr>\<rparr>) req = Handle v req"
    for list'
  proof -
    let ?v' = "v\<lparr>Client := (Client v)\<lparr>ClientList := list'\<rparr>\<rparr>"
    have dec': "decoder ?v' req = Inr pod" using dec by simp
    have get': "ClientGet (Client ?v') (ReqNamespace req) (ReqName req) = Inr originalPod"
      using get by simp
    from Handle_unchanged[OF dec' get' same] h show ?thesis by simp
  qed
  with h show ?thesis
    by (simp add: admission_Allowed_def ValidationResponse_def)
qed

theorem C7_unchanged_ignores_policies_witness:
  "decoder (validator_with (Inr (pod_with labels_app_x)) (Inr (pod_with labels_app_x))
       (Inr [policy_with labels_app_x []])) update_request = Inr (pod_with labels_app_x)
   \<and> ClientGet (Client (validator_with (Inr (pod_with labels_app_x))
         (Inr (pod_with labels_app_x)) (Inr [policy_with labels_app_x []])))
       (ReqNamespace update_request) (ReqName update_request) = Inr (pod_with labels_app_x)
   \<and> DeepEqual (Labels (pod_with labels_app_x)) (Labels (pod_with labels_app_x))
   \<and> Handle (validator_with (Inr (pod_with labels_app_x)) (Inr (pod_with labels_app_x))
       (Inr [policy_with labels_app_x []])) update_request
       = \<lparr>Allowed = True, Code = 200, Message = ''No label changes detected'', Warnings = []\<rparr>
   \<and> Handle (validator_with (Inr (pod_with labels_app_x)) (Inr (pod_with labels_app_x))
       (Inl (OtherError ''timeout''))) update_request
       = \<lparr>Allowed = True, Code = 200, Message = ''No label changes detected'', Warnings = []\<rparr>"
proof -
  let ?v = "validator_with (Inr (pod_with labels_app_x)) (Inr (pod_with labels_app_x))
       (Inr [policy_with labels_app_x []])"
  let ?w = "validator_with (Inr (pod_with labels_app_x)) (Inr (pod_with labels_app_x))
       (Inl (OtherError ''timeout''))"
  have dec: "decoder ?v update_request = Inr (pod_with labels_app_x)"
    by (simp add: validator_with_def)
  have get: "ClientGet (Client ?v) (ReqNamespace update_request) (ReqName update_request)
      = Inr (pod_with labels_app_x)"
    by (simp add: validator_with_def update_request_def)
  have same: "DeepEqual (Labels (pod_with labels_app_x)) (Labels (pod_with labels_app_x))"
    by (simp add: DeepEqual_def go_map_defs example_defs)
  have w: "?w = ?v\<lparr>Client := (Client ?v)\<lparr>ClientList :=
      (\<lambda>ns. if ns = ''default'' then Inl (OtherError ''timeout'') else Inr [])\<rparr>\<rparr>"
    by (simp add: validator_with_def)
  note T = C7_unchanged_ignores_policies[OF dec get same]
  from T have 1: "Handle ?v update_request = admission_Allowed ''No label changes detected''"
    by blast
  from T have "Handle (?v\<lparr>Client := (Client ?v)\<lparr>ClientList :=
      (\<lambda>ns. if ns = ''default'' then Inl (OtherError ''timeout'') else Inr [])\<rparr>\<rparr>)
      update_request = Handle ?v update_request"
    by blast
  with w 1 have 2: "Handle ?w update_request = admission_Allowed ''No label changes detected''"
    by simp
  from 1 2 dec get same show ?thesis
    by (simp add: response_defs)
qed

text \<open>
  Claim C9. The policy scan reads only the \<^verbatim>\<open>MatchLabels\<close> of a policy's pod selector:
  replacing the \<^verbatim>\<open>MatchExpressions\<close> of the policies by anything leaves its result
  unchanged. Hence a policy whose selector has no key/value requirement references every
  label set, whatever expressions it carries, and a pod with changed labels in a namespace
  that lists such a policy gets the warning response.
\<close>

theorem C9_only_match_labels_consulted:
  "referencedBy L
      (map (\<lambda>np. np\<lparr>Spec := (Spec np)\<lparr>PodSelector :=
                     (PodSelector (Spec np))\<lparr>MatchExpressions := es np\<rparr>\<rparr>\<rparr>) items)
     = referencedBy L items
   \<and> (np \<in> set items \<and> map_len (MatchLabels (PodSelector (Spec np))) = 0
        \<longrightarrow> referencedBy L items)
   \<and> (decoder v req = Inr pod
        \<and> ClientGet (Client v) (ReqNamespace req) (ReqName req) = Inr originalPod
        \<and> \<not> DeepEqual (Labels originalPod) (Labels pod)
        \<and> ClientList (Client v) (Namespace pod) = Inr items
        \<and> np \<in> set items \<and> map_len (MatchLabels (PodSelector (Spec np))) = 0
      \<longrightarrow> Handle v req = WithWarnings (admission_Allowed [])
                            [''Pod labels are referenced in a NetworkPolicy''])"
proof (intro conjI impI)
  show "referencedBy L
      (map (\<lambda>np. np\<lparr>Spec := (Spec np)\<lparr>PodSelector :=
                     (PodSelector (Spec np))\<lparr>MatchExpressions := es np\<rparr>\<rparr>\<rparr>) items)
     = referencedBy L items"
    by (induction items) simp_all
next
  have e: "referencedBy L' items"
    if "np \<in> set items" "map_len (MatchLabels (PodSelector (Spec np))) = 0" for L'
  proof -
    from that(2) have "matchesLabels L' (MatchLabels (PodSelector (Spec np)))"
      by (simp add: matchesLabels_iff map_len_0_index)
    with that(1) show ?thesis by (auto simp: referencedBy_iff)
  qed
  {
    assume "np \<in> set items \<and> map_len (MatchLabels (PodSelector (Spec np))) = 0"
    then show "referencedBy L items" by (simp add: e)
  next
    assume a: "decoder v req = Inr pod
        \<and> ClientGet (Client v) (ReqNamespace req) (ReqName req) = Inr originalPod
        \<and> \<not> DeepEqual (Labels originalPod) (Labels pod)
        \<and> ClientList (Client v) (Namespace pod) = Inr items
        \<and> np \<in> set items \<and> map_len (MatchLabels (PodSelector (Spec np))) = 0"
    then have "referencedBy (Labels originalPod) items" by (simp add: e)
    with a show "Handle v req = WithWarnings (admission_Allowed [])
                            [''Pod labels are referenced in a NetworkPolicy'']"
      by (simp add: Handle_def)
  }
qed

theorem C9_only_match_labels_consulted_witness:
  "decoder (validator_with (Inr (pod_with labels_app_y)) (Inr (pod_with labels_app_x))
       (Inr [policy_with (Some fmempty) [tier_exists]])) update_request
     = Inr (pod_with labels_app_y)
   \<and> ClientGet (Client (validator_with (Inr (pod_with labels_app_y))
         (Inr (pod_with labels_app_x)) (Inr [policy_with (Some fmempty) [tier_exists]])))
       (ReqNamespace update_request) (ReqName update_request) = Inr (pod_with labels_app_x)
   \<and> \<not> DeepEqual (Labels (pod_with labels_app_x)) (Labels (pod_with labels_app_y))
   \<and> ClientList (Client (validator_with (Inr (pod_with labels_app_y))
         (Inr (pod_with labels_app_x)) (Inr [policy_with (Some fmempty) [tier_exists]])))
       (Namespace (pod_with labels_app_y)) = Inr [policy_with (Some fmempty) [tier_exists]]
   \<and> policy_with (Some fmempty) [tier_exists] \<in> set [policy_with (Some fmempty) [tier_exists]]
   \<and> map_len (MatchLabels (PodSelector (Spec (policy_with (Some fmempty) [tier_exists])))) = 0
   \<and> MatchExpressions (PodSelector (Spec (policy_with (Some fmempty) [tier_exists])))
       = [\<lparr>Key = ''tier'', Operator = ''Exists'', Values = []\<rparr>]
   \<and> map_index (Labels (pod_with labels_app_x)) ''tier'' = None
   \<and> Handle (validator_with (Inr (pod_with labels_app_y)) (Inr (pod_with labels_app_x))
       (Inr [policy_with (Some fmempty) [tier_exists]])) update_request
       = \<lparr>Allowed = True, Code = 200, Message = [],
          Warnings = [''Pod labels are referenced in a NetworkPolicy'']\<rparr>"
proof -
  let ?np = "policy_with (Some fmempty) [tier_exists]"
  let ?v = "validator_with (Inr (pod_with labels_app_y)) (Inr (pod_with labels_app_x))
       (Inr [?np])"
  have dec: "decoder ?v update_request = Inr (pod_with labels_app_y)"
    by (simp add: validator_with_def)
  have get: "ClientGet (Client ?v) (ReqNamespace update_request) (ReqName update_request)
      = Inr (pod_with labels_app_x)"
    by (simp add: validator_with_def update_request_def)
  have chg: "\<not> DeepEqual (Labels (pod_with labels_app_x)) (Labels (pod_with labels_app_y))"
    by (simp add: DeepEqual_def go_map_defs example_defs)
  have lst: "ClientList (Client ?v) (Namespace (pod_with labels_app_y)) = Inr [?np]"
    by (simp add: validator_with_def pod_with_def)
  have mem: "?np \<in> set [?np]" by simp
  have len: "map_len (MatchLabels (PodSelector (Spec ?np))) = 0"
    by (simp add: policy_with_def map_len_def)
  have ex: "MatchExpressions (PodSelector (Spec ?np))
       = [\<lparr>Key = ''tier'', Operator = ''Exists'', Values = []\<rparr>]"
    by (simp add: policy_with_def tier_exists_def)
  have nt: "map_index (Labels (pod_with labels_app_x)) ''tier'' = None"
    by (simp add: go_map_defs example_defs)
  from C9_only_match_labels_consulted
    [of _ _ "[?np]" ?np ?v update_request "pod_with labels_app_y" "pod_with labels_app_x"]
    dec get chg lst mem len
  have "Handle ?v update_request = WithWarnings (admission_Allowed [])
          [''Pod labels are referenced in a NetworkPolicy'']"
    by blast
  then have h: "Handle ?v update_request = \<lparr>Allowed = True, Code = 200, Message = [],
          Warnings = [''Pod labels are referenced in a NetworkPolicy'']\<rparr>"
    by (simp add: response_defs)
  from dec get chg lst mem len ex nt h show ?thesis by blast
qed

text \<open>
  Claim C10. The change detector tells the nil label map from the empty one: when the
  previous pod's label map is nil and the proposed one is empty but present, or the other
  way round, it reports a change although both hold no pair, and the handler goes on to
  list the policies and scan them against the previous pod's (empty) labels.
\<close>

theorem C10_nil_and_empty_differ:
  assumes dec: "decoder v req = Inr pod"
    and get: "ClientGet (Client v) (ReqNamespace req) (ReqName req) = Inr originalPod"
    and ne: "(Labels originalPod = None \<and> Labels pod = Some fmempty)
           \<or> (Labels originalPod = Some fmempty \<and> Labels pod = None)"
  shows "\<not> DeepEqual (Labels originalPod) (Labels pod)
     \<and> pairs (Labels originalPod) = {||} \<and> pairs (Labels pod) = {||}
     \<and> Handle v req =
         (case ClientList (Client v) (Namespace pod) of
            Inl err \<Rightarrow> admission_Errored StatusInternalServerError err
          | Inr items \<Rightarrow>
              (if referencedBy (Labels originalPod) items
               then WithWarnings (admission_Allowed [])
                      [''Pod labels are referenced in a NetworkPolicy'']
               else admission_Allowed ''Labels are not referenced in any NetworkPolicy''))"
proof -
  from ne have chg: "\<not> DeepEqual (Labels originalPod) (Labels pod)"
    by (auto simp: DeepEqual_def map_is_nil_def)
  from ne have p: "pairs (Labels originalPod) = {||} \<and> pairs (Labels pod) = {||}"
    by (auto simp: pairs_def)
  from chg p Handle_changed[OF dec get chg] show ?thesis by simp
qed

theorem C10_nil_and_empty_differ_witness:
  "decoder (validator_with (Inr (pod_with (Some fmempty))) (Inr (pod_with None))
       (Inr [policy_with labels_app_x []])) update_request = Inr (pod_with (Some fmempty))
   \<and> ClientGet (Client (validator_with (Inr (pod_with (Some fmempty))) (Inr (pod_with None))
         (Inr [policy_with labels_app_x []])))
       (ReqNamespace update_request) (ReqName update_request) = Inr (pod_with None)
   \<and> Labels (pod_with None) = None \<and> Labels (pod_with (Some fmempty)) = Some fmempty
   \<and> \<not> DeepEqual (Labels (pod_with None)) (Labels (pod_with (Some fmempty)))
   \<and> Handle (validator_with (Inr (pod_with (Some fmempty))) (Inr (pod_with None))
       (Inr [policy_with labels_app_x []])) update_request
       = \<lparr>Allowed = True, Code = 200,
          Message = ''Labels are not referenced in any NetworkPolicy'', Warnings = []\<rparr>"
proof -
  let ?v = "validator_with (Inr (pod_with (Some fmempty))) (Inr (pod_with None))
       (Inr [policy_with labels_app_x []])"
  have dec: "decoder ?v update_request = Inr (pod_with (Some fmempty))"
    by (simp add: validator_with_def)
  have get: "ClientGet (Client ?v) (ReqNamespace update_request) (ReqName update_request)
      = Inr (pod_with None)"
    by (simp add: validator_with_def update_request_def)
  have l1: "Labels (pod_with None) = None" by (simp add: pod_with_def)
  have l2: "Labels (pod_with (Some fmempty)) = Some fmempty" by (simp add: pod_with_def)
  have ne: "(Labels (pod_with None) = None \<and> Labels (pod_with (Some fmempty)) = Some fmempty)
      \<or> (Labels (pod_with None) = Some fmempty \<and> Labels (pod_with (Some fmempty)) = None)"
    using l1 l2 by simp
  have lst: "ClientList (Client ?v) (Namespace (pod_with (Some fmempty)))
      = Inr [policy_with labels_app_x []]"
    by (simp add: validator_with_def pod_with_def)
  have nr: "\<not> referencedBy (Labels (pod_with None)) [policy_with labels_app_x []]"
    by (simp add: matchesLabels_def Matches_def fmpred_iff go_map_defs example_defs)
  note T = C10_nil_and_empty_differ[OF dec get ne]
  from T have chg: "\<not> DeepEqual (Labels (pod_with None)) (Labels (pod_with (Some fmempty)))"
    by blast
  from T lst nr have "Handle ?v update_request
      = admission_Allowed ''Labels are not referenced in any NetworkPolicy''"
    by simp
  then have h: "Handle ?v update_request = \<lparr>Allowed = True, Code = 200,
          Message = ''Labels are not referenced in any NetworkPolicy'', Warnings = []\<rparr>"
    by (simp add: response_defs)
  from dec get l1 l2 chg h show ?thesis by blast
qed

end
